theory Spec2Isabelle
  imports Complex_Main
begin

section \<open>The drag engine of use-gesture (\<^verbatim>\<open>DragEngine.ts\<close>)\<close>

text \<open>
  \<^verbatim>\<open>DragEngine\<close> merges pointer and keyboard input into one drag gesture. Its handlers
  mutate one state object, schedule and cancel named timeouts, and call \<^verbatim>\<open>emit\<close> to hand
  the state to the consumer. The embedding is by state passing: a handler takes the
  engine and returns the new engine together with the list of states it called \<^verbatim>\<open>emit\<close>
  with (at most one per handler).

  JavaScript numbers are idealised as real numbers. The fields \<^verbatim>\<open>_active\<close>,
  \<^verbatim>\<open>_pointerActive\<close>, ... of the source are written \<open>u_active\<close>, \<open>u_pointerActive\<close>, ...
  (an Isabelle name cannot start with an underscore); \<^verbatim>\<open>values\<close> and \<^verbatim>\<open>type\<close> are written
  \<open>values'\<close> and \<open>type'\<close>. Calls into the DOM (pointer capture, pointer lock,
  \<^verbatim>\<open>preventDefault\<close>), the controller's book-keeping of event ids and the registration of
  listeners do not touch the gesture state and are left out, and so are the methods that
  consist of such calls only (\<^verbatim>\<open>setupPointer\<close>, \<^verbatim>\<open>pointerClean\<close>, \<^verbatim>\<open>preventScroll\<close>,
  \<^verbatim>\<open>pointerClick\<close>, \<^verbatim>\<open>bind\<close>) and \<^verbatim>\<open>setup\<close>, which resolves the bounds for the kinematics
  pass.
\<close>

subsection \<open>Vectors and input events\<close>

type_synonym vec = "real \<times> real"

text \<open>
  Modelled from the spec: the vector helpers \<^verbatim>\<open>V.sub\<close> and \<^verbatim>\<open>V.addTo\<close> (utils/maths) are
  not among the sources. The spec gives the delta as ``current absolute position minus
  last absolute position'' and movement as the sum of the deltas: component-wise
  subtraction and (in-place) addition.
\<close>

definition V_sub :: "vec \<Rightarrow> vec \<Rightarrow> vec" where
  "V_sub a b = (fst a - fst b, snd a - snd b)"

definition V_addTo :: "vec \<Rightarrow> vec \<Rightarrow> vec" where
  "V_addTo a b = (fst a + fst b, snd a + snd b)"

text \<open>
  What the handlers read from a pointer event: \<^verbatim>\<open>event.type\<close>, \<^verbatim>\<open>event.timeStamp\<close>,
  \<^verbatim>\<open>pointerId(event)\<close>, \<^verbatim>\<open>pointerValues(event)\<close>, \<^verbatim>\<open>[event.movementX, event.movementY]\<close>
  and whether \<^verbatim>\<open>document.pointerLockElement === event.target\<close> when the event arrives.
\<close>

record pointer_event =
  pe_type :: string
  pe_timeStamp :: real
  pe_pointerId :: int
  pe_values :: vec
  pe_movement :: vec
  pe_locked :: bool

record keyboard_event =
  ke_type :: string
  ke_timeStamp :: real
  ke_key :: string
  ke_shiftKey :: bool
  ke_altKey :: bool

datatype event = Pointer pointer_event | Keyboard keyboard_event

subsection \<open>Configuration and gesture state\<close>

datatype axis_name = AxisX | AxisY | AxisXY

text \<open>
  The resolved configuration, as far as the engine reads it. \<^verbatim>\<open>config.preventScroll\<close> is
  only tested for truthiness by the handlers (its number is the duration of the
  forced-activation timeout, and durations are not part of the model).
\<close>

record config =
  preventScroll :: bool
  preventScrollAxis :: axis_name
  delay :: real
  filterTaps :: bool
  swipe_velocity :: vec
  swipe_distance :: vec
  swipe_duration :: real

record dstate =
  u_active :: bool
  u_pointerActive :: bool
  u_keyboardActive :: bool
  u_pointerId :: "int option"
  u_preventScroll :: bool
  u_delayed :: bool
  u_force :: bool
  canceled :: bool
  tap :: bool
  swipe :: vec
  values' :: vec
  initial :: vec
  u_delta :: vec
  u_movement :: vec
  u_distance :: vec
  direction :: vec
  velocity :: vec
  movement :: vec
  axis :: "axis_name option"
  elapsedTime :: real
  type' :: "string option"
  timeStamp :: real

text \<open>
  The engine: the gesture state, the timeout store (a key holds the pointer event its
  pending \<^verbatim>\<open>startPointerDrag\<close> callback will be called with) and the number of deferred
  cancellation callbacks (\<^verbatim>\<open>setTimeout(..., 0)\<close> in \<^verbatim>\<open>cancel\<close>) that have not run yet.
  Modelled from the spec: the timeout store is not among the sources; by the
  Event/Timer Registrar contract it is keyed, \<^verbatim>\<open>add(key, callback, delay, args)\<close> schedules
  and \<^verbatim>\<open>remove(key)\<close> cancels the callback of that key.
\<close>

record engine =
  state :: dstate
  timeoutStore :: "string \<rightharpoonup> pointer_event"
  deferred :: nat

text \<open>
  The methods \<^verbatim>\<open>DragEngine\<close> inherits or calls on \<^verbatim>\<open>super\<close> are not among the sources:
  \<^verbatim>\<open>compute\<close> (the kinematics pass), \<^verbatim>\<open>start\<close>, \<^verbatim>\<open>emit\<close>, \<^verbatim>\<open>super.clean\<close> and
  \<^verbatim>\<open>super.reset\<close>. They are parameters of the model. The handlers themselves record the
  state with which each call of \<^verbatim>\<open>emit\<close> is made (the snapshot the consumer is offered);
  the parameter \<open>emit\<close> stands for whatever else that call does to the engine.
\<close>

record collaborators =
  compute :: "dstate \<Rightarrow> event option \<Rightarrow> dstate"
  start :: "dstate \<Rightarrow> event \<Rightarrow> dstate"
  emit :: "engine \<Rightarrow> engine"
  super_clean :: "engine \<Rightarrow> engine"
  super_reset :: "dstate \<Rightarrow> dstate"

subsection \<open>The handlers\<close>

text \<open>
  \<^verbatim>\<open>KEYS_DELTA_MAP\<close> holds the four arrow keys. The model covers the lookup of key names
  that are no property a JavaScript object inherits from its prototype
  (\<open>inherited_names\<close> below); for those names \<^verbatim>\<open>KEYS_DELTA_MAP[event.key]\<close> and
  \<^verbatim>\<open>event.key in KEYS_DELTA_MAP\<close> are truthy in the source although the key is no arrow
  key, and the handlers do not return early.
\<close>

definition DISPLACEMENT :: real where
  "DISPLACEMENT = 10"

definition KEYS_DELTA_MAP :: "string \<Rightarrow> (real \<Rightarrow> vec) option" where
  "KEYS_DELTA_MAP k =
    (if k = ''ArrowRight'' then Some (\<lambda>factor. (DISPLACEMENT * factor, 0))
     else if k = ''ArrowLeft'' then Some (\<lambda>factor. (- DISPLACEMENT * factor, 0))
     else if k = ''ArrowUp'' then Some (\<lambda>factor. (0, - DISPLACEMENT * factor))
     else if k = ''ArrowDown'' then Some (\<lambda>factor. (0, DISPLACEMENT * factor))
     else None)"

definition reset :: "collaborators \<Rightarrow> dstate \<Rightarrow> dstate" where
  "reset X s =
    (super_reset X s)\<lparr>u_pointerId := None, u_pointerActive := False,
      u_keyboardActive := False, u_preventScroll := False, u_delayed := False,
      swipe := (0, 0), tap := False, canceled := False\<rparr>"

text \<open>
  \<^verbatim>\<open>this.emit()\<close>: the state at the call is recorded, and the inherited method does to the
  engine what the parameter says.
\<close>

definition emit_call :: "collaborators \<Rightarrow> engine \<Rightarrow> engine \<times> dstate list" where
  "emit_call X e = (emit X e, [state e])"

text \<open>
  \<^verbatim>\<open>cancel()\<close> only schedules; \<open>cancel_callback\<close> is the function it passes to
  \<^verbatim>\<open>setTimeout\<close>, run by \<open>run_deferred\<close> when a scheduled callback comes due.
\<close>

definition cancel :: "engine \<Rightarrow> engine" where
  "cancel e = (if canceled (state e) then e else e\<lparr>deferred := Suc (deferred e)\<rparr>)"

definition cancel_callback :: "collaborators \<Rightarrow> engine \<Rightarrow> engine \<times> dstate list" where
  "cancel_callback X e =
    (let s1 = (state e)\<lparr>canceled := True, u_active := False\<rparr>;
         s2 = compute X s1 None
     in emit_call X (e\<lparr>state := s2\<rparr>))"

definition run_deferred :: "collaborators \<Rightarrow> engine \<Rightarrow> engine \<times> dstate list" where
  "run_deferred X e =
    (case deferred e of
       0 \<Rightarrow> (e, [])
     | Suc n \<Rightarrow> cancel_callback X (e\<lparr>deferred := n\<rparr>))"

definition setActive :: "dstate \<Rightarrow> dstate" where
  "setActive s = s\<lparr>u_active := (u_pointerActive s \<or> u_keyboardActive s)\<rparr>"

definition clean :: "collaborators \<Rightarrow> engine \<Rightarrow> engine" where
  "clean X e =
    super_clean X
      (e\<lparr>state := (state e)\<lparr>u_pointerActive := False, u_keyboardActive := False\<rparr>\<rparr>)"

definition startPointerDrag ::
  "collaborators \<Rightarrow> engine \<Rightarrow> pointer_event \<Rightarrow> engine \<times> dstate list" where
  "startPointerDrag X e ev =
    (let s1 = (state e)\<lparr>u_active := True, u_preventScroll := True, u_delayed := False\<rparr>;
         s2 = compute X s1 (Some (Pointer ev))
     in emit_call X (e\<lparr>state := s2\<rparr>))"

definition setupScrollPrevention :: "engine \<Rightarrow> pointer_event \<Rightarrow> engine" where
  "setupScrollPrevention e ev =
    e\<lparr>timeoutStore := (timeoutStore e)(''startPointerDrag'' \<mapsto> ev)\<rparr>"

definition setupDelayTrigger :: "engine \<Rightarrow> pointer_event \<Rightarrow> engine" where
  "setupDelayTrigger e ev =
    e\<lparr>state := (state e)\<lparr>u_delayed := True\<rparr>,
      timeoutStore := (timeoutStore e)(''dragDelay'' \<mapsto> ev)\<rparr>"

definition pointerDown ::
  "collaborators \<Rightarrow> config \<Rightarrow> engine \<Rightarrow> pointer_event \<Rightarrow> engine \<times> dstate list" where
  "pointerDown X cfg e ev =
    (if u_pointerActive (state e) then (e, [])
     else
       let s1 = start X (state e) (Pointer ev);
           s2 = s1\<lparr>u_pointerId := Some (pe_pointerId ev), u_pointerActive := True,
                  values' := pe_values ev, initial := pe_values ev\<rparr>;
           e2 = e\<lparr>state := s2\<rparr>
       in if preventScroll cfg then (setupScrollPrevention e2 ev, [])
          else if delay cfg > 0 then (setupDelayTrigger e2 ev, [])
          else startPointerDrag X e2 ev)"

text \<open>
  \<^verbatim>\<open>state._pointerId && id !== state._pointerId\<close>: the captured id is tested for
  truthiness first, so \<^verbatim>\<open>undefined\<close> and \<^verbatim>\<open>0\<close> both switch the comparison off.
\<close>

definition id_mismatch :: "dstate \<Rightarrow> pointer_event \<Rightarrow> bool" where
  "id_mismatch s ev =
    (case u_pointerId s of
       None \<Rightarrow> False
     | Some i \<Rightarrow> i \<noteq> 0 \<and> pe_pointerId ev \<noteq> i)"

text \<open>Lines 129--138 of \<^verbatim>\<open>pointerMove\<close>: the delta of this event, added to \<^verbatim>\<open>_movement\<close>.\<close>

definition move_accumulate :: "dstate \<Rightarrow> pointer_event \<Rightarrow> dstate" where
  "move_accumulate s ev =
    (let s1 = (if pe_locked ev then s\<lparr>u_delta := pe_movement ev\<rparr>
               else s\<lparr>u_delta := V_sub (pe_values ev) (values' s), values' := pe_values ev\<rparr>)
     in s1\<lparr>u_movement := V_addTo (u_movement s1) (u_delta s1)\<rparr>)"

definition pointerMove ::
  "collaborators \<Rightarrow> config \<Rightarrow> engine \<Rightarrow> pointer_event \<Rightarrow> engine \<times> dstate list" where
  "pointerMove X cfg e ev =
    (let s = state e in
     if \<not> u_pointerActive s then (e, [])
     else if type' s = Some (pe_type ev) \<and> pe_timeStamp ev = timeStamp s then (e, [])
     else if id_mismatch s ev then (e, [])
     else
       let s3 = compute X (move_accumulate s ev) (Some (Pointer ev));
           e3 = e\<lparr>state := s3\<rparr>
       in if u_delayed s3 then
            startPointerDrag X (e3\<lparr>timeoutStore := (timeoutStore e3)(''dragDelay'' := None)\<rparr>) ev
          else if preventScroll cfg \<and> \<not> u_preventScroll s3 then
            (case axis s3 of
               None \<Rightarrow> (e3, [])
             | Some a \<Rightarrow>
                 if a = preventScrollAxis cfg \<or> preventScrollAxis cfg = AxisXY
                 then (clean X (e3\<lparr>state := s3\<lparr>u_active := False\<rparr>\<rparr>), [])
                 else startPointerDrag X
                        (e3\<lparr>timeoutStore := (timeoutStore e3)(''startPointerDrag'' := None)\<rparr>) ev)
          else emit_call X e3)"

text \<open>
  \<^verbatim>\<open>pointerUp\<close> after its guards: lines 189--191 (\<open>up_kinematics\<close>) and the
  classification of lines 193--210 (\<open>up_classify\<close>), then \<^verbatim>\<open>emit\<close>.
\<close>

definition up_kinematics :: "collaborators \<Rightarrow> dstate \<Rightarrow> pointer_event \<Rightarrow> dstate" where
  "up_kinematics X s ev =
    compute X (setActive (s\<lparr>u_pointerActive := False\<rparr>)) (Some (Pointer ev))"

definition up_classify :: "config \<Rightarrow> dstate \<Rightarrow> dstate" where
  "up_classify cfg s2 =
    (let dx = fst (u_distance s2); dy = snd (u_distance s2);
         s3 = s2\<lparr>tap := (dx \<le> 3 \<and> dy \<le> 3)\<rparr>
     in if tap s3 \<and> filterTaps cfg then s3\<lparr>u_force := True\<rparr>
        else
          let dirx = fst (direction s3); diry = snd (direction s3);
              vx = fst (velocity s3); vy = snd (velocity s3);
              mx = fst (movement s3); my = snd (movement s3);
              svx = fst (swipe_velocity cfg); svy = snd (swipe_velocity cfg);
              sx = fst (swipe_distance cfg); sy = snd (swipe_distance cfg);
              sdt = swipe_duration cfg
          in if elapsedTime s3 < sdt then
               let s4 = (if \<bar>vx\<bar> > svx \<and> \<bar>mx\<bar> > sx
                         then s3\<lparr>swipe := (dirx, snd (swipe s3))\<rparr> else s3);
                   s5 = (if \<bar>vy\<bar> > svy \<and> \<bar>my\<bar> > sy
                         then s4\<lparr>swipe := (fst (swipe s4), diry)\<rparr> else s4)
               in s5
             else s3)"

definition pointerUp ::
  "collaborators \<Rightarrow> config \<Rightarrow> engine \<Rightarrow> pointer_event \<Rightarrow> engine \<times> dstate list" where
  "pointerUp X cfg e ev =
    (let s = state e in
     if \<not> u_pointerActive s then (e, [])
     else if id_mismatch s ev then (e, [])
     else emit_call X (e\<lparr>state := up_classify cfg (up_kinematics X s ev)\<rparr>))"

definition key_factor :: "keyboard_event \<Rightarrow> real" where
  "key_factor ev = (if ke_shiftKey ev then 10 else if ke_altKey ev then 0.1 else 1)"

definition keyDown :: "collaborators \<Rightarrow> engine \<Rightarrow> keyboard_event \<Rightarrow> engine \<times> dstate list" where
  "keyDown X e ev =
    (case KEYS_DELTA_MAP (ke_key ev) of
       None \<Rightarrow> (e, [])
     | Some deltaFn \<Rightarrow>
         let s1 = (state e)\<lparr>u_delta := deltaFn (key_factor ev)\<rparr>;
             s2 = start X s1 (Keyboard ev);
             s3 = s2\<lparr>u_keyboardActive := True\<rparr>;
             s4 = s3\<lparr>u_movement := V_addTo (u_movement s3) (u_delta s3)\<rparr>;
             s5 = compute X s4 (Some (Keyboard ev))
         in emit_call X (e\<lparr>state := s5\<rparr>))"

definition keyUp :: "collaborators \<Rightarrow> engine \<Rightarrow> keyboard_event \<Rightarrow> engine \<times> dstate list" where
  "keyUp X e ev =
    (if KEYS_DELTA_MAP (ke_key ev) = None then (e, [])
     else
       let s1 = setActive ((state e)\<lparr>u_keyboardActive := False\<rparr>);
           s2 = compute X s1 (Some (Keyboard ev))
       in emit_call X (e\<lparr>state := s2\<rparr>))"

text \<open>
  A pending timeout comes due: its callback \<^verbatim>\<open>startPointerDrag\<close> runs with the event it
  was scheduled with and the key is used up. A key that is not pending (never scheduled,
  or removed since) runs nothing.
\<close>

definition fire_timeout :: "collaborators \<Rightarrow> engine \<Rightarrow> string \<Rightarrow> engine \<times> dstate list" where
  "fire_timeout X e k =
    (case timeoutStore e k of
       None \<Rightarrow> (e, [])
     | Some ev \<Rightarrow> startPointerDrag X (e\<lparr>timeoutStore := (timeoutStore e)(k := None)\<rparr>) ev)"

subsection \<open>Sequences of inputs\<close>

datatype input =
    PointerDown pointer_event
  | PointerMove pointer_event
  | PointerUp pointer_event
  | KeyDown keyboard_event
  | KeyUp keyboard_event
  | Cancel
  | Deferred
  | Timeout string
  | Clean

fun handle :: "collaborators \<Rightarrow> config \<Rightarrow> engine \<Rightarrow> input \<Rightarrow> engine \<times> dstate list" where
  "handle X cfg e (PointerDown ev) = pointerDown X cfg e ev"
| "handle X cfg e (PointerMove ev) = pointerMove X cfg e ev"
| "handle X cfg e (PointerUp ev) = pointerUp X cfg e ev"
| "handle X cfg e (KeyDown ev) = keyDown X e ev"
| "handle X cfg e (KeyUp ev) = keyUp X e ev"
| "handle X cfg e Cancel = (cancel e, [])"
| "handle X cfg e Deferred = run_deferred X e"
| "handle X cfg e (Timeout k) = fire_timeout X e k"
| "handle X cfg e Clean = (clean X e, [])"

fun run :: "collaborators \<Rightarrow> config \<Rightarrow> engine \<Rightarrow> input list \<Rightarrow> engine \<times> dstate list" where
  "run X cfg e [] = (e, [])"
| "run X cfg e (i # ins) =
    (let r1 = handle X cfg e i; r2 = run X cfg (fst r1) ins
     in (fst r2, snd r1 @ snd r2))"

subsection \<open>Notions the properties are stated with\<close>

text \<open>The three guards of \<^verbatim>\<open>pointerMove\<close> (lines 120--127) let the event through.\<close>

definition move_accepted :: "dstate \<Rightarrow> pointer_event \<Rightarrow> bool" where
  "move_accepted s ev =
    (u_pointerActive s
     \<and> \<not> (type' s = Some (pe_type ev) \<and> pe_timeStamp ev = timeStamp s)
     \<and> \<not> id_mismatch s ev)"

text \<open>The two guards of \<^verbatim>\<open>pointerUp\<close> (lines 185--187) let the event through.\<close>

definition up_accepted :: "dstate \<Rightarrow> pointer_event \<Rightarrow> bool" where
  "up_accepted s ev = (u_pointerActive s \<and> \<not> id_mismatch s ev)"

text \<open>
  A run of pointer-move events, and whether each of them passes the guards in the state
  it meets.
\<close>

fun moves :: "collaborators \<Rightarrow> config \<Rightarrow> engine \<Rightarrow> pointer_event list \<Rightarrow> engine" where
  "moves X cfg e [] = e"
| "moves X cfg e (ev # evs) = moves X cfg (fst (pointerMove X cfg e ev)) evs"

fun all_accepted :: "collaborators \<Rightarrow> config \<Rightarrow> engine \<Rightarrow> pointer_event list \<Rightarrow> bool" where
  "all_accepted X cfg e [] = True"
| "all_accepted X cfg e (ev # evs) =
    (move_accepted (state e) ev \<and> all_accepted X cfg (fst (pointerMove X cfg e ev)) evs)"

text \<open>
  The per-event deltas as the specification words them, from the events alone: the
  relative movement the platform reports while the pointer is locked, otherwise the
  difference between this absolute position and the last one recorded (\<open>p\<close>).
\<close>

fun event_deltas :: "vec \<Rightarrow> pointer_event list \<Rightarrow> vec list" where
  "event_deltas p [] = []"
| "event_deltas p (ev # evs) =
    (if pe_locked ev then pe_movement ev # event_deltas p evs
     else V_sub (pe_values ev) p # event_deltas (pe_values ev) evs)"

text \<open>
  The keyboard displacement as the specification words it: a constant magnitude of 10,
  signed by the key's direction, scaled by 10 with the fast modifier (shift), by 0.1
  with the fine modifier (alt), by 1 otherwise, the fast modifier winning.
\<close>

definition arrow_direction :: "string \<Rightarrow> vec option" where
  "arrow_direction k =
    (if k = ''ArrowRight'' then Some (1, 0)
     else if k = ''ArrowLeft'' then Some (- 1, 0)
     else if k = ''ArrowUp'' then Some (0, - 1)
     else if k = ''ArrowDown'' then Some (0, 1)
     else None)"

definition modifier_scale :: "bool \<Rightarrow> bool \<Rightarrow> real" where
  "modifier_scale fast fine = (if fast then 10 else if fine then 1 / 10 else 1)"

definition arrow_displacement :: "keyboard_event \<Rightarrow> vec option" where
  "arrow_displacement ev =
    (case arrow_direction (ke_key ev) of
       None \<Rightarrow> None
     | Some d \<Rightarrow>
         Some (10 * modifier_scale (ke_shiftKey ev) (ke_altKey ev) * fst d,
               10 * modifier_scale (ke_shiftKey ev) (ke_altKey ev) * snd d))"

text \<open>
  The property names every JavaScript object inherits from \<^verbatim>\<open>Object.prototype\<close>: the
  key names outside the four arrows for which the lookups of the source still succeed.
\<close>

definition inherited_names :: "string list" where
  "inherited_names =
    [''constructor'', ''hasOwnProperty'', ''isPrototypeOf'', ''propertyIsEnumerable'',
     ''toLocaleString'', ''toString'', ''valueOf'', ''__proto__'', ''__defineGetter__'',
     ''__defineSetter__'', ''__lookupGetter__'', ''__lookupSetter__'']"

text \<open>The three activity flags of a state: active, pointerActive, keyboardActive.\<close>

definition flags :: "dstate \<Rightarrow> bool \<times> bool \<times> bool" where
  "flags s = (u_active s, u_pointerActive s, u_keyboardActive s)"

text \<open>Inputs of the pointer source that can follow within one gesture.\<close>

fun pointer_followup :: "input \<Rightarrow> bool" where
  "pointer_followup (PointerMove ev) = True"
| "pointer_followup (PointerUp ev) = True"
| "pointer_followup (Timeout k) = True"
| "pointer_followup i = False"

subsection \<open>What is assumed of the inherited methods\<close>

text \<open>
  The kinematics pass owns the derived quantities and nothing else (the spec: distance,
  direction, velocity and axis are ``owned and recomputed by the Kinematics Provider'';
  the drag engine owns its flags, ids, raw delta and raw movement). \<open>compute_frame\<close>
  says that \<^verbatim>\<open>compute\<close> writes at most the derived fields, the timing fields and the
  event type.
\<close>

definition with_kinematics :: "dstate \<Rightarrow> dstate \<Rightarrow> dstate" where
  "with_kinematics s k =
    s\<lparr>u_distance := u_distance k, direction := direction k, velocity := velocity k,
      movement := movement k, axis := axis k, elapsedTime := elapsedTime k,
      type' := type' k, timeStamp := timeStamp k\<rparr>"

definition compute_frame :: "collaborators \<Rightarrow> bool" where
  "compute_frame X = (\<forall>s ev. compute X s ev = with_kinematics s (compute X s ev))"

text \<open>
  \<open>emit_frame\<close>: besides handing the state out, \<^verbatim>\<open>emit\<close> changes at most the two source
  flags of the state (a teardown of a gesture that is over). \<open>super_clean_frame\<close>: the
  inherited \<^verbatim>\<open>clean\<close> leaves the gesture state alone (it releases listeners and timers).
\<close>

definition with_sources :: "dstate \<Rightarrow> dstate \<Rightarrow> dstate" where
  "with_sources s k =
    s\<lparr>u_pointerActive := u_pointerActive k, u_keyboardActive := u_keyboardActive k\<rparr>"

definition emit_frame :: "collaborators \<Rightarrow> bool" where
  "emit_frame X = (\<forall>e. state (emit X e) = with_sources (state e) (state (emit X e)))"

definition super_clean_frame :: "collaborators \<Rightarrow> bool" where
  "super_clean_frame X = (\<forall>e. state (super_clean X e) = state e)"

text \<open>
  \<open>emit_teardown\<close>: called on a gesture that is not active, \<^verbatim>\<open>emit\<close> leaves the pointer
  flag down (it tears the gesture down; pointer-up and the cancellation callback call
  nothing else that could).
\<close>

definition emit_teardown :: "collaborators \<Rightarrow> bool" where
  "emit_teardown X =
    (\<forall>e. \<not> u_active (state e) \<longrightarrow> \<not> u_pointerActive (state (emit X e)))"

subsection \<open>A reference instance of the inherited methods\<close>

text \<open>
  Concrete inherited methods, used to run the handlers on concrete inputs.

  Modelled from the spec: the Kinematics Provider (\<^verbatim>\<open>compute\<close>) is not among the sources.
  By the spec it takes the raw delta and the elapsed time and updates movement, velocity,
  direction, distance and axis, and a call with no event freezes the derived values.
  \<open>compute0\<close> is the plainest such pass: distance accumulates the absolute delta while the
  gesture is active, direction is the sign of the delta, velocity the absolute delta
  over the time since the last event, movement the raw movement, and the axis, once
  known, is the one with the larger movement.
\<close>

definition event_type :: "event \<Rightarrow> string" where
  "event_type ev = (case ev of Pointer p \<Rightarrow> pe_type p | Keyboard k \<Rightarrow> ke_type k)"

definition event_timeStamp :: "event \<Rightarrow> real" where
  "event_timeStamp ev = (case ev of Pointer p \<Rightarrow> pe_timeStamp p | Keyboard k \<Rightarrow> ke_timeStamp k)"

definition compute0 :: "dstate \<Rightarrow> event option \<Rightarrow> dstate" where
  "compute0 s evo =
    (case evo of
       None \<Rightarrow> s
     | Some ev \<Rightarrow>
         let dt = event_timeStamp ev - timeStamp s; d = u_delta s; m = u_movement s
         in s\<lparr>type' := Some (event_type ev), timeStamp := event_timeStamp ev,
              elapsedTime := elapsedTime s + dt,
              u_distance := (if u_active s then V_addTo (u_distance s) (\<bar>fst d\<bar>, \<bar>snd d\<bar>)
                             else u_distance s),
              movement := m,
              direction := (sgn (fst d), sgn (snd d)),
              velocity := (if dt > 0 then (\<bar>fst d\<bar> / dt, \<bar>snd d\<bar> / dt) else velocity s),
              axis := (case axis s of
                         Some a \<Rightarrow> Some a
                       | None \<Rightarrow> if \<bar>fst m\<bar> > \<bar>snd m\<bar> then Some AxisX
                                 else if \<bar>snd m\<bar> > \<bar>fst m\<bar> then Some AxisY else None)\<rparr>)"

text \<open>
  Modelled from the spec: the generic engine's \<^verbatim>\<open>reset\<close>, \<^verbatim>\<open>clean\<close>, \<^verbatim>\<open>start\<close> and \<^verbatim>\<open>emit\<close>
  are not among the sources. By the spec the state is reset before each fresh gesture,
  the timers are cancelled when the gesture is torn down, and every exit route releases
  what the gesture holds. \<open>super_reset0\<close> zeroes the raw and the derived values,
  \<open>super_clean0\<close> empties the timeout store, \<open>start0\<close> resets a gesture that is not
  active yet, and \<open>emit0\<close> tears down a gesture that is no longer active (pointer-up
  and cancellation call nothing else that could release it). \<open>start0\<close> also raises
  \<open>u_active\<close>: \<^verbatim>\<open>keyDown\<close> starts a gesture and assigns \<^verbatim>\<open>_active\<close> nowhere itself.
\<close>

definition super_reset0 :: "dstate \<Rightarrow> dstate" where
  "super_reset0 s =
    s\<lparr>u_active := False, u_force := False, u_delta := (0, 0), u_movement := (0, 0),
      u_distance := (0, 0), direction := (0, 0), velocity := (0, 0), movement := (0, 0),
      axis := None, elapsedTime := 0, timeStamp := 0\<rparr>"

definition super_clean0 :: "engine \<Rightarrow> engine" where
  "super_clean0 e = e\<lparr>timeoutStore := Map.empty\<rparr>"

definition X_plain :: collaborators where
  "X_plain =
    \<lparr>compute = compute0, start = (\<lambda>s ev. s), emit = (\<lambda>e. e),
      super_clean = super_clean0, super_reset = super_reset0\<rparr>"

definition start0 :: "dstate \<Rightarrow> event \<Rightarrow> dstate" where
  "start0 s ev =
    (if u_active s then s
     else (reset X_plain s)\<lparr>u_active := True, timeStamp := event_timeStamp ev\<rparr>)"

definition emit0 :: "engine \<Rightarrow> engine" where
  "emit0 e = (if u_active (state e) then e else clean X_plain e)"

definition X0 :: collaborators where
  "X0 = X_plain\<lparr>start := start0, emit := emit0\<rparr>"

text \<open>A state with every flag down and every number zero, and an engine holding it.\<close>

definition blank :: dstate where
  "blank =
    \<lparr>u_active = False, u_pointerActive = False, u_keyboardActive = False,
      u_pointerId = None, u_preventScroll = False, u_delayed = False, u_force = False,
      canceled = False, tap = False, swipe = (0, 0), values' = (0, 0), initial = (0, 0),
      u_delta = (0, 0), u_movement = (0, 0), u_distance = (0, 0), direction = (0, 0),
      velocity = (0, 0), movement = (0, 0), axis = None, elapsedTime = 0,
      type' = None, timeStamp = 0\<rparr>"

definition engine0 :: engine where
  "engine0 = \<lparr>state = blank, timeoutStore = Map.empty, deferred = 0\<rparr>"

text \<open>
  A configuration for the examples: no delay, no scroll prevention, taps not filtered,
  swipe thresholds of 0.5 for the velocity, 50 for the distance and 250 for the duration.
\<close>

definition config0 :: config where
  "config0 =
    \<lparr>preventScroll = False, preventScrollAxis = AxisY, delay = 0, filterTaps = False,
      swipe_velocity = (0.5, 0.5), swipe_distance = (50, 50), swipe_duration = 250\<rparr>"

definition pointer_at :: "string \<Rightarrow> int \<Rightarrow> real \<Rightarrow> vec \<Rightarrow> pointer_event" where
  "pointer_at ty i t p =
    \<lparr>pe_type = ty, pe_timeStamp = t, pe_pointerId = i, pe_values = p,
      pe_movement = (0, 0), pe_locked = False\<rparr>"

definition key_at :: "string \<Rightarrow> string \<Rightarrow> real \<Rightarrow> bool \<Rightarrow> bool \<Rightarrow> keyboard_event" where
  "key_at ty k t shift alt =
    \<lparr>ke_type = ty, ke_timeStamp = t, ke_key = k, ke_shiftKey = shift, ke_altKey = alt\<rparr>"

definition config_scroll :: config where
  "config_scroll = config0\<lparr>preventScroll := True\<rparr>"

definition config_delay :: config where
  "config_delay = config0\<lparr>delay := 200\<rparr>"

text \<open>
  The engine after a pointer-down at the origin (time 0) and one move to \<open>p\<close> at time \<open>t\<close>,
  with the reference instance and the default configuration.
\<close>

definition dragged :: "vec \<Rightarrow> real \<Rightarrow> engine" where
  "dragged p t =
    fst (run X0 config0 engine0
      [PointerDown (pointer_at ''pointerdown'' 1 0 (0, 0)),
       PointerMove (pointer_at ''pointermove'' 1 t p)])"

text \<open>
  Three more engines reached by one pointer-down from \<open>engine0\<close>: waiting for the scroll
  decision, waiting for the delay, and dragging with the captured pointer id 0.
\<close>

definition scroll_pending :: engine where
  "scroll_pending =
    fst (pointerDown X0 config_scroll engine0 (pointer_at ''pointerdown'' 1 0 (0, 0)))"

definition delay_pending_engine :: engine where
  "delay_pending_engine =
    fst (pointerDown X0 config_delay engine0 (pointer_at ''pointerdown'' 1 0 (0, 0)))"

definition captured_zero :: engine where
  "captured_zero =
    fst (pointerDown X0 config0 engine0 (pointer_at ''pointerdown'' 0 0 (0, 0)))"



section \<open>Properties\<close>

subsection \<open>Unfolding the model\<close>

lemmas handler_defs =
  pointerDown_def pointerMove_def pointerUp_def keyDown_def keyUp_def cancel_def
  cancel_callback_def run_deferred_def fire_timeout_def clean_def startPointerDrag_def
  setupScrollPrevention_def setupDelayTrigger_def emit_call_def setActive_def
  id_mismatch_def move_accumulate_def up_kinematics_def up_classify_def key_factor_def
  KEYS_DELTA_MAP_def DISPLACEMENT_def V_sub_def V_addTo_def reset_def move_accepted_def
  up_accepted_def flags_def

lemmas reference_defs =
  X0_def X_plain_def start0_def emit0_def compute0_def super_reset0_def super_clean0_def
  event_type_def event_timeStamp_def blank_def engine0_def config0_def config_scroll_def
  config_delay_def pointer_at_def key_at_def

subsection \<open>The frame conditions, field by field\<close>

lemma compute_frame_fields:
  assumes "compute_frame X"
  shows "u_active (compute X s ev) = u_active s"
    and "u_pointerActive (compute X s ev) = u_pointerActive s"
    and "u_keyboardActive (compute X s ev) = u_keyboardActive s"
    and "u_pointerId (compute X s ev) = u_pointerId s"
    and "u_preventScroll (compute X s ev) = u_preventScroll s"
    and "u_delayed (compute X s ev) = u_delayed s"
    and "u_force (compute X s ev) = u_force s"
    and "canceled (compute X s ev) = canceled s"
    and "tap (compute X s ev) = tap s"
    and "swipe (compute X s ev) = swipe s"
    and "values' (compute X s ev) = values' s"
    and "initial (compute X s ev) = initial s"
    and "u_delta (compute X s ev) = u_delta s"
    and "u_movement (compute X s ev) = u_movement s"
proof -
  from assms have eq: "compute X s ev = with_kinematics s (compute X s ev)"
    by (simp add: compute_frame_def)
  show "u_active (compute X s ev) = u_active s"
    by (subst eq) (simp add: with_kinematics_def)
  show "u_pointerActive (compute X s ev) = u_pointerActive s"
    by (subst eq) (simp add: with_kinematics_def)
  show "u_keyboardActive (compute X s ev) = u_keyboardActive s"
    by (subst eq) (simp add: with_kinematics_def)
  show "u_pointerId (compute X s ev) = u_pointerId s"
    by (subst eq) (simp add: with_kinematics_def)
  show "u_preventScroll (compute X s ev) = u_preventScroll s"
    by (subst eq) (simp add: with_kinematics_def)
  show "u_delayed (compute X s ev) = u_delayed s"
    by (subst eq) (simp add: with_kinematics_def)
  show "u_force (compute X s ev) = u_force s"
    by (subst eq) (simp add: with_kinematics_def)
  show "canceled (compute X s ev) = canceled s"
    by (subst eq) (simp add: with_kinematics_def)
  show "tap (compute X s ev) = tap s"
    by (subst eq) (simp add: with_kinematics_def)
  show "swipe (compute X s ev) = swipe s"
    by (subst eq) (simp add: with_kinematics_def)
  show "values' (compute X s ev) = values' s"
    by (subst eq) (simp add: with_kinematics_def)
  show "initial (compute X s ev) = initial s"
    by (subst eq) (simp add: with_kinematics_def)
  show "u_delta (compute X s ev) = u_delta s"
    by (subst eq) (simp add: with_kinematics_def)
  show "u_movement (compute X s ev) = u_movement s"
    by (subst eq) (simp add: with_kinematics_def)
qed

lemma emit_frame_fields:
  assumes "emit_frame X"
  shows "u_active (state (emit X e)) = u_active (state e)"
    and "canceled (state (emit X e)) = canceled (state e)"
    and "values' (state (emit X e)) = values' (state e)"
    and "u_movement (state (emit X e)) = u_movement (state e)"
    and "u_preventScroll (state (emit X e)) = u_preventScroll (state e)"
proof -
  from assms have eq: "state (emit X e) = with_sources (state e) (state (emit X e))"
    by (simp add: emit_frame_def)
  show "u_active (state (emit X e)) = u_active (state e)"
    by (subst eq) (simp add: with_sources_def)
  show "canceled (state (emit X e)) = canceled (state e)"
    by (subst eq) (simp add: with_sources_def)
  show "values' (state (emit X e)) = values' (state e)"
    by (subst eq) (simp add: with_sources_def)
  show "u_movement (state (emit X e)) = u_movement (state e)"
    by (subst eq) (simp add: with_sources_def)
  show "u_preventScroll (state (emit X e)) = u_preventScroll (state e)"
    by (subst eq) (simp add: with_sources_def)
qed

text \<open>The reference instance meets the frame conditions.\<close>

lemma X0_compute_frame: "compute_frame X0"
  by (simp add: compute_frame_def with_kinematics_def reference_defs Let_def
      split: option.splits)

lemma X0_super_clean_frame: "super_clean_frame X0"
  by (simp add: super_clean_frame_def reference_defs)

lemma X0_emit_frame: "emit_frame X0"
  by (simp add: emit_frame_def with_sources_def reference_defs clean_def)

lemma X0_emit_teardown: "emit_teardown X0"
  by (simp add: emit_teardown_def reference_defs clean_def)

lemma dragged_state:
  "0 < t \<Longrightarrow> dragged p t =
    \<lparr>state = blank\<lparr>u_active := True, u_pointerActive := True, u_pointerId := Some 1,
        u_preventScroll := True, values' := p, u_delta := p, u_movement := p,
        u_distance := (\<bar>fst p\<bar>, \<bar>snd p\<bar>), direction := (sgn (fst p), sgn (snd p)),
        velocity := (\<bar>fst p\<bar> / t, \<bar>snd p\<bar> / t), movement := p,
        axis := (if \<bar>fst p\<bar> > \<bar>snd p\<bar> then Some AxisX
                 else if \<bar>snd p\<bar> > \<bar>fst p\<bar> then Some AxisY else None),
        elapsedTime := t, type' := Some ''pointermove'', timeStamp := t\<rparr>,
     timeoutStore = Map.empty, deferred = 0\<rparr>"
  by (simp add: dragged_def handler_defs reference_defs Let_def)

subsection \<open>Tap and swipe at pointer-up\<close>

text \<open>
  Claim C1. A pointer-up that passes the guards of \<^verbatim>\<open>pointerUp\<close> (it ends an active
  pointer gesture) emits exactly one state, the state the engine holds when \<^verbatim>\<open>emit\<close> is
  called. Its distance is the one the final kinematics pass computed, and its tap flag
  is true if and only if that distance is at most 3 on both axes; a distance of 4 on
  either axis gives \<open>tap = False\<close>.
\<close>

theorem pointerUp_tap:
  assumes "up_accepted (state e) ev"
  shows "\<exists>s'. pointerUp X cfg e ev = (emit X (e\<lparr>state := s'\<rparr>), [s'])
           \<and> u_distance s' = u_distance (up_kinematics X (state e) ev)
           \<and> (tap s' \<longleftrightarrow> fst (u_distance s') \<le> 3 \<and> snd (u_distance s') \<le> 3)
           \<and> (fst (u_distance s') = 4 \<or> snd (u_distance s') = 4 \<longrightarrow> \<not> tap s')"
  using assms
  by (auto simp add: pointerUp_def up_accepted_def emit_call_def up_classify_def Let_def)

theorem pointerUp_tap_witness:
  "up_accepted (state (dragged (4, 0) 10)) (pointer_at ''pointerup'' 1 20 (4, 0))
   \<and> map tap (snd (pointerUp X0 config0 (dragged (4, 0) 10)
                    (pointer_at ''pointerup'' 1 20 (4, 0)))) = [False]
   \<and> up_accepted (state (dragged (3, 3) 10)) (pointer_at ''pointerup'' 1 20 (3, 3))
   \<and> map tap (snd (pointerUp X0 config0 (dragged (3, 3) 10)
                    (pointer_at ''pointerup'' 1 20 (3, 3)))) = [True]"
  using pointerUp_tap [of "dragged (4, 0) 10" "pointer_at ''pointerup'' 1 20 (4, 0)" X0 config0]
    pointerUp_tap [of "dragged (3, 3) 10" "pointer_at ''pointerup'' 1 20 (3, 3)" X0 config0]
  by (simp add: dragged_state handler_defs reference_defs Let_def)






subsection \<open>An accepted pointer-move, and an idle pointer source\<close>

lemma pointerMove_accepted:
  assumes "move_accepted (state e) ev"
    and "s3 = compute X (move_accumulate (state e) ev) (Some (Pointer ev))"
  shows "pointerMove X cfg e ev =
    (if u_delayed s3 then
       startPointerDrag X
         (e\<lparr>state := s3, timeoutStore := (timeoutStore e)(''dragDelay'' := None)\<rparr>) ev
     else if preventScroll cfg \<and> \<not> u_preventScroll s3 then
       (case axis s3 of
          None \<Rightarrow> (e\<lparr>state := s3\<rparr>, [])
        | Some a \<Rightarrow>
            if a = preventScrollAxis cfg \<or> preventScrollAxis cfg = AxisXY
            then (clean X (e\<lparr>state := s3\<lparr>u_active := False\<rparr>\<rparr>), [])
            else startPointerDrag X
                   (e\<lparr>state := s3,
                      timeoutStore := (timeoutStore e)(''startPointerDrag'' := None)\<rparr>) ev)
     else emit_call X (e\<lparr>state := s3\<rparr>))"
proof -
  from assms(1) have g: "u_pointerActive (state e)"
    "\<not> (type' (state e) = Some (pe_type ev) \<and> pe_timeStamp ev = timeStamp (state e))"
    "\<not> id_mismatch (state e) ev"
    by (simp_all add: move_accepted_def)
  show ?thesis
    unfolding assms(2) using g
    by (cases "type' (state e) = Some (pe_type ev)")
      (simp_all add: pointerMove_def Let_def split: option.splits)
qed

text \<open>
  With the pointer flag down and no timeout pending, pointer-moves, pointer-ups and
  timeouts coming due change nothing and emit nothing.
\<close>

lemma pointer_source_idle:
  assumes "\<not> u_pointerActive (state e)" and "timeoutStore e = Map.empty"
    and "list_all pointer_followup ins"
  shows "run X cfg e ins = (e, [])"
  using assms
proof (induction ins)
  case Nil
  then show ?case by simp
next
  case (Cons i ins)
  from Cons.prems have "handle X cfg e i = (e, [])"
    by (cases i) (simp_all add: pointerMove_def pointerUp_def fire_timeout_def)
  with Cons show ?case by simp
qed

subsection \<open>Cancellation\<close>

text \<open>
  Claim C3 fails on two \<^verbatim>\<open>cancel()\<close> calls made in the same turn. The guard
  \<^verbatim>\<open>if (state.canceled) return\<close> is there to make a second call a no-op, but the flag
  is only set inside the deferred callback, so both calls pass it and schedule a
  callback, and both callbacks emit: after a pointer-down, two \<^verbatim>\<open>cancel()\<close> calls and the
  two deferred callbacks, \<^verbatim>\<open>emit\<close> has been called three times, twice with
  \<open>canceled = True\<close>, where the claim promises a single terminal emission.
\<close>

theorem cancel_twice_emits_twice:
  "map canceled (snd (run X0 config0 engine0
     [PointerDown (pointer_at ''pointerdown'' 1 0 (0, 0)), Cancel, Cancel, Deferred, Deferred]))
   = [False, True, True]"
  by (simp add: handler_defs reference_defs Let_def)

text \<open>
  The rest of what the claim says holds. A \<^verbatim>\<open>cancel()\<close> call while \<open>canceled\<close> is already
  true is a no-op. A deferred cancellation callback that runs emits exactly once, with
  \<open>canceled = True\<close> and \<open>active = False\<close>; in the engine \<open>e'\<close> it leaves behind,
  \<open>canceled\<close> is true and \<open>active\<close> false, so a \<^verbatim>\<open>cancel()\<close> call made after it schedules
  nothing. And with an \<^verbatim>\<open>emit\<close> that tears an inactive gesture down, every pointer-move and
  pointer-up that follows changes nothing and emits nothing.
\<close>

lemma cancellation_is_terminal:
  assumes "compute_frame X" and "emit_frame X" and "emit_teardown X"
    and "e' = fst (cancel_callback X e)"
  shows "(canceled (state e) \<longrightarrow> cancel e = e)
       \<and> (\<exists>s'. cancel_callback X e = (emit X (e\<lparr>state := s'\<rparr>), [s'])
               \<and> canceled s' \<and> \<not> u_active s')
       \<and> canceled (state e') \<and> \<not> u_active (state e') \<and> cancel e' = e'
       \<and> pointerMove X cfg e' ev = (e', []) \<and> pointerUp X cfg e' ev = (e', [])"
proof -
  have down: "\<not> u_pointerActive (state e')"
    using assms(1,3,4)
    by (simp add: cancel_callback_def emit_call_def Let_def emit_teardown_def
        compute_frame_fields)
  have dropped: "pointerMove X cfg e' ev = (e', []) \<and> pointerUp X cfg e' ev = (e', [])"
    using down by (simp add: pointerMove_def pointerUp_def Let_def)
  show ?thesis
    using assms(1,2,4) dropped
    by (simp add: cancel_def cancel_callback_def emit_call_def Let_def compute_frame_fields
        emit_frame_fields)
qed

lemma cancellation_is_terminal_example:
  "map canceled (snd (cancel_callback X0 (dragged (4, 0) 10))) = [True]
   \<and> pointerMove X0 config0 (fst (cancel_callback X0 (dragged (4, 0) 10)))
        (pointer_at ''pointermove'' 1 30 (9, 9))
       = (fst (cancel_callback X0 (dragged (4, 0) 10)), [])
   \<and> pointerUp X0 config0 (fst (cancel_callback X0 (dragged (4, 0) 10)))
        (pointer_at ''pointerup'' 1 40 (9, 9))
       = (fst (cancel_callback X0 (dragged (4, 0) 10)), [])"
  using cancellation_is_terminal [of X0 "fst (cancel_callback X0 (dragged (4, 0) 10))"
      "dragged (4, 0) 10" config0 "pointer_at ''pointermove'' 1 30 (9, 9)"]
    cancellation_is_terminal [of X0 "fst (cancel_callback X0 (dragged (4, 0) 10))"
      "dragged (4, 0) 10" config0 "pointer_at ''pointerup'' 1 40 (9, 9)"]
    X0_compute_frame X0_emit_frame X0_emit_teardown
  by (simp add: dragged_state handler_defs reference_defs Let_def)

subsection \<open>The active flag\<close>

text \<open>
  Claim C4, as stated, fails: \<^verbatim>\<open>clean\<close> lowers both source flags and does not touch
  \<^verbatim>\<open>_active\<close>. With scroll prevention configured (where \<^verbatim>\<open>clean\<close> is bound to the end and
  the cancellation of a touch), a pointer-down, the forced-activation timeout and then
  \<^verbatim>\<open>clean\<close> leave \<open>active = True\<close> with \<open>pointerActive = keyboardActive = False\<close>.
\<close>

theorem clean_leaves_active:
  "flags (state (fst (run X0 config_scroll engine0
     [PointerDown (pointer_at ''pointerdown'' 1 0 (0, 0)), Timeout ''startPointerDrag'',
      Clean])))
   = (True, False, False)"
  by (simp add: handler_defs reference_defs Let_def)

text \<open>
  Claim C4, amended. \<^verbatim>\<open>setActive\<close> sets \<open>active\<close> to \<open>pointerActive \<or> keyboardActive\<close>, and
  pointer-up and key-up call it right after lowering their own source flag, so the state
  they emit has \<open>active\<close> equal to the other source's flag. Everywhere else \<open>active\<close>
  is assigned directly: \<^verbatim>\<open>startPointerDrag\<close> emits a state with \<open>active = True\<close> and the
  cancellation callback one with \<open>active = False\<close>, whatever the source flags are, and
  \<^verbatim>\<open>clean\<close> lowers both source flags and leaves \<open>active\<close> as it was. (The triple is
  \<open>flags s = (active, pointerActive, keyboardActive)\<close>.)
\<close>

theorem active_flag_assignments:
  assumes "compute_frame X" and "super_clean_frame X"
  shows "flags (setActive s)
           = (u_pointerActive s \<or> u_keyboardActive s, u_pointerActive s, u_keyboardActive s)
       \<and> (up_accepted (state e) pe \<longrightarrow>
            (\<exists>s'. snd (pointerUp X cfg e pe) = [s']
               \<and> flags s' = (u_keyboardActive (state e), False, u_keyboardActive (state e))))
       \<and> (ke_key ke \<in> {''ArrowRight'', ''ArrowLeft'', ''ArrowUp'', ''ArrowDown''} \<longrightarrow>
            (\<exists>s'. snd (keyUp X e ke) = [s']
               \<and> flags s' = (u_pointerActive (state e), u_pointerActive (state e), False)))
       \<and> (\<exists>s'. snd (startPointerDrag X e pe) = [s']
               \<and> flags s' = (True, u_pointerActive (state e), u_keyboardActive (state e)))
       \<and> (\<exists>s'. snd (cancel_callback X e) = [s']
               \<and> flags s' = (False, u_pointerActive (state e), u_keyboardActive (state e)))
       \<and> flags (state (clean X e)) = (u_active (state e), False, False)"
  using assms
  by (auto simp add: flags_def setActive_def pointerUp_def up_accepted_def up_kinematics_def
      up_classify_def keyUp_def KEYS_DELTA_MAP_def startPointerDrag_def cancel_callback_def
      clean_def emit_call_def Let_def compute_frame_fields super_clean_frame_def)

theorem active_flag_assignments_witness:
  "compute_frame X0 \<and> super_clean_frame X0
   \<and> up_accepted (state (dragged (4, 0) 10)) (pointer_at ''pointerup'' 1 20 (4, 0))
   \<and> ''ArrowUp'' \<in> {''ArrowRight'', ''ArrowLeft'', ''ArrowUp'', ''ArrowDown''}
   \<and> map flags (snd (pointerUp X0 config0 (dragged (4, 0) 10)
        (pointer_at ''pointerup'' 1 20 (4, 0)))) = [(False, False, False)]
   \<and> map flags (snd (keyUp X0 (dragged (4, 0) 10)
        (key_at ''keyup'' ''ArrowUp'' 20 False False))) = [(True, True, False)]
   \<and> flags (state (clean X0 (dragged (4, 0) 10))) = (True, False, False)"
  using active_flag_assignments [of X0 "state (dragged (4, 0) 10)" "dragged (4, 0) 10"
      "pointer_at ''pointerup'' 1 20 (4, 0)" config0
      "key_at ''keyup'' ''ArrowUp'' 20 False False"]
    X0_compute_frame X0_super_clean_frame
  by (simp add: dragged_state handler_defs reference_defs Let_def)

subsection \<open>Pointer-moves while the gesture is pending\<close>

text \<open>
  Claim C5. Let scroll prevention be configured and the gesture be scroll-pending
  (\<open>u_preventScroll\<close> and \<open>u_delayed\<close> both false), let a pointer-move pass the guards,
  let \<open>s3\<close> be the state after its delta was accumulated and forwarded to the kinematics
  pass, and \<open>r\<close> what the handler returns. The delta is the locked relative movement or
  the difference to the last position, and it has been added to the movement in \<open>s3\<close>.
  \<^item> While the axis of \<open>s3\<close> is undetermined, the handler keeps \<open>s3\<close> and emits nothing.
  \<^item> When the axis is the prevented one, or both axes are prevented, the handler marks
    \<open>s3\<close> inactive and runs \<^verbatim>\<open>clean\<close>, emitting nothing: all three flags are down and
    the state is not dragging (\<open>u_preventScroll\<close> is still false). If the inherited
    \<^verbatim>\<open>clean\<close> releases the timeouts, no later pointer-move, pointer-up or timeout of
    this gesture changes the engine or emits, so Dragging is never reached.
  \<^item> Otherwise the handler removes the forced-activation timeout and calls
    \<^verbatim>\<open>startPointerDrag\<close> with this very event: the emitted state is active and dragging,
    computed from \<open>s3\<close> by a kinematics pass on the same event.
\<close>

theorem scroll_pending_move:
  assumes "move_accepted (state e) ev"
    and "preventScroll cfg"
    and "\<not> u_preventScroll (state e)" and "\<not> u_delayed (state e)"
    and "compute_frame X" and "super_clean_frame X"
    and "s3 = compute X (move_accumulate (state e) ev) (Some (Pointer ev))"
    and "r = pointerMove X cfg e ev"
  shows "u_delta s3 = (if pe_locked ev then pe_movement ev
                       else V_sub (pe_values ev) (values' (state e)))
       \<and> u_movement s3 = V_addTo (u_movement (state e)) (u_delta s3)
       \<and> (axis s3 = None \<longrightarrow> r = (e\<lparr>state := s3\<rparr>, []))
       \<and> (\<forall>a. axis s3 = Some a
               \<and> (a = preventScrollAxis cfg \<or> preventScrollAxis cfg = AxisXY) \<longrightarrow>
             r = (clean X (e\<lparr>state := s3\<lparr>u_active := False\<rparr>\<rparr>), [])
             \<and> flags (state (fst r)) = (False, False, False)
             \<and> \<not> u_preventScroll (state (fst r))
             \<and> ((\<forall>x. timeoutStore (super_clean X x) = Map.empty) \<longrightarrow>
                  (\<forall>ins. list_all pointer_followup ins \<longrightarrow>
                     run X cfg (fst r) ins = (fst r, []))))
       \<and> (\<forall>a. axis s3 = Some a
               \<and> a \<noteq> preventScrollAxis cfg \<and> preventScrollAxis cfg \<noteq> AxisXY \<longrightarrow>
             r = startPointerDrag X
                   (e\<lparr>state := s3,
                      timeoutStore := (timeoutStore e)(''startPointerDrag'' := None)\<rparr>) ev
             \<and> (\<exists>s'. snd r = [s']
                   \<and> s' = compute X (s3\<lparr>u_active := True, u_preventScroll := True,
                                         u_delayed := False\<rparr>) (Some (Pointer ev))
                   \<and> u_active s' \<and> u_preventScroll s'))"
proof -
  have d: "u_delta s3 = (if pe_locked ev then pe_movement ev
                         else V_sub (pe_values ev) (values' (state e)))"
    and m: "u_movement s3 = V_addTo (u_movement (state e)) (u_delta s3)"
    using assms(5,7) by (simp_all add: compute_frame_fields move_accumulate_def Let_def)
  have p: "\<not> u_preventScroll s3" "\<not> u_delayed s3"
    using assms(3,4,5,7) by (simp_all add: compute_frame_fields move_accumulate_def Let_def)
  have body: "r = (case axis s3 of
               None \<Rightarrow> (e\<lparr>state := s3\<rparr>, [])
             | Some a \<Rightarrow>
                 if a = preventScrollAxis cfg \<or> preventScrollAxis cfg = AxisXY
                 then (clean X (e\<lparr>state := s3\<lparr>u_active := False\<rparr>\<rparr>), [])
                 else startPointerDrag X
                        (e\<lparr>state := s3,
                           timeoutStore := (timeoutStore e)(''startPointerDrag'' := None)\<rparr>) ev)"
    using pointerMove_accepted [OF assms(1,7), of cfg] assms(2,8) p by simp
  have none: "axis s3 = None \<longrightarrow> r = (e\<lparr>state := s3\<rparr>, [])"
    using body by simp
  have abort: "r = (clean X (e\<lparr>state := s3\<lparr>u_active := False\<rparr>\<rparr>), [])
             \<and> flags (state (fst r)) = (False, False, False)
             \<and> \<not> u_preventScroll (state (fst r))
             \<and> ((\<forall>x. timeoutStore (super_clean X x) = Map.empty) \<longrightarrow>
                  (\<forall>ins. list_all pointer_followup ins \<longrightarrow>
                     run X cfg (fst r) ins = (fst r, [])))"
    if "axis s3 = Some a" and "a = preventScrollAxis cfg \<or> preventScrollAxis cfg = AxisXY"
    for a
  proof -
    have r: "r = (clean X (e\<lparr>state := s3\<lparr>u_active := False\<rparr>\<rparr>), [])"
      using body that by auto
    have st: "state (fst r)
        = s3\<lparr>u_active := False, u_pointerActive := False, u_keyboardActive := False\<rparr>"
      using r assms(6) by (simp add: clean_def super_clean_frame_def)
    have idle: "run X cfg (fst r) ins = (fst r, [])"
      if "\<forall>x. timeoutStore (super_clean X x) = Map.empty"
        and "list_all pointer_followup ins" for ins
    proof (rule pointer_source_idle)
      show "\<not> u_pointerActive (state (fst r))" using st by simp
      show "timeoutStore (fst r) = Map.empty" using r that(1) by (simp add: clean_def)
      show "list_all pointer_followup ins" by (rule that(2))
    qed
    show ?thesis using r st p idle by (simp add: flags_def)
  qed
  have drag: "r = startPointerDrag X
                   (e\<lparr>state := s3,
                      timeoutStore := (timeoutStore e)(''startPointerDrag'' := None)\<rparr>) ev
             \<and> (\<exists>s'. snd r = [s']
                   \<and> s' = compute X (s3\<lparr>u_active := True, u_preventScroll := True,
                                         u_delayed := False\<rparr>) (Some (Pointer ev))
                   \<and> u_active s' \<and> u_preventScroll s')"
    if "axis s3 = Some a" and "a \<noteq> preventScrollAxis cfg"
      and "preventScrollAxis cfg \<noteq> AxisXY" for a
    using body that assms(5)
    by (simp add: startPointerDrag_def emit_call_def Let_def compute_frame_fields)
  show ?thesis using d m none abort drag by blast
qed

theorem scroll_pending_move_witness:
  "move_accepted (state scroll_pending) (pointer_at ''pointermove'' 1 10 (0, 8))
   \<and> move_accepted (state scroll_pending) (pointer_at ''pointermove'' 1 10 (8, 0))
   \<and> move_accepted (state scroll_pending) (pointer_at ''pointermove'' 1 10 (5, 5))
   \<and> preventScroll config_scroll
   \<and> \<not> u_preventScroll (state scroll_pending) \<and> \<not> u_delayed (state scroll_pending)
   \<and> compute_frame X0 \<and> super_clean_frame X0
   \<and> snd (pointerMove X0 config_scroll scroll_pending
        (pointer_at ''pointermove'' 1 10 (0, 8))) = []
   \<and> flags (state (fst (pointerMove X0 config_scroll scroll_pending
        (pointer_at ''pointermove'' 1 10 (0, 8))))) = (False, False, False)
   \<and> map flags (snd (pointerMove X0 config_scroll scroll_pending
        (pointer_at ''pointermove'' 1 10 (8, 0)))) = [(True, True, False)]
   \<and> timeoutStore (fst (pointerMove X0 config_scroll scroll_pending
        (pointer_at ''pointermove'' 1 10 (8, 0)))) ''startPointerDrag'' = None
   \<and> snd (pointerMove X0 config_scroll scroll_pending
        (pointer_at ''pointermove'' 1 10 (5, 5))) = []
   \<and> u_movement (state (fst (pointerMove X0 config_scroll scroll_pending
        (pointer_at ''pointermove'' 1 10 (5, 5))))) = (5, 5)"
  using scroll_pending_move [where e = scroll_pending and cfg = config_scroll and X = X0
      and ev = "pointer_at ''pointermove'' 1 10 (0, 8)"
      and ?s3.0 = "compute X0 (move_accumulate (state scroll_pending)
                  (pointer_at ''pointermove'' 1 10 (0, 8)))
                  (Some (Pointer (pointer_at ''pointermove'' 1 10 (0, 8))))"
      and r = "pointerMove X0 config_scroll scroll_pending
                 (pointer_at ''pointermove'' 1 10 (0, 8))"]
    X0_compute_frame X0_super_clean_frame
  by (simp add: scroll_pending_def handler_defs reference_defs Let_def)

text \<open>
  Claim C6. Let a positive delay be configured (and no scroll prevention), and let a
  pointer-down \<open>down\<close> arrive while no pointer is active; \<open>e1\<close> is the engine it leaves.
  The pointer-down emits nothing, marks the gesture delayed and schedules the delay
  timeout with \<open>down\<close>.
  \<^item> If the timeout comes due, \<^verbatim>\<open>startPointerDrag\<close> runs with \<open>down\<close>, the event captured
    when the timeout was scheduled: the emitted state is active, no longer delayed, and
    comes from a kinematics pass on \<open>down\<close>.
  \<^item> If a pointer-move \<open>mv\<close> passes the guards before that, the handler removes the delay
    timeout and calls \<^verbatim>\<open>startPointerDrag\<close> with \<open>mv\<close>: the emitted state is active, no
    longer delayed, and comes from a kinematics pass on \<open>mv\<close> over the state \<open>s3\<close> that
    holds the accumulated delta; in the engine \<open>e2\<close> that \<^verbatim>\<open>emit\<close> is called on the
    delay timeout is gone, so its coming due runs nothing.
\<close>

theorem delay_pending:
  assumes "\<not> u_pointerActive (state e)"
    and "\<not> preventScroll cfg" and "0 < delay cfg"
    and "compute_frame X"
    and "e1 = fst (pointerDown X cfg e down)"
    and "s3 = compute X (move_accumulate (state e1) mv) (Some (Pointer mv))"
  shows "pointerDown X cfg e down = (e1, [])
       \<and> u_delayed (state e1) \<and> u_pointerActive (state e1)
       \<and> timeoutStore e1 ''dragDelay'' = Some down
       \<and> fire_timeout X e1 ''dragDelay''
           = startPointerDrag X
               (e1\<lparr>timeoutStore := (timeoutStore e1)(''dragDelay'' := None)\<rparr>) down
       \<and> (\<exists>s'. snd (fire_timeout X e1 ''dragDelay'') = [s']
              \<and> s' = compute X ((state e1)\<lparr>u_active := True, u_preventScroll := True,
                                   u_delayed := False\<rparr>) (Some (Pointer down))
              \<and> u_active s' \<and> \<not> u_delayed s')
       \<and> (move_accepted (state e1) mv \<longrightarrow>
            (\<exists>e2 s'. pointerMove X cfg e1 mv = (emit X e2, [s'])
               \<and> state e2 = s'
               \<and> timeoutStore e2 ''dragDelay'' = None
               \<and> fire_timeout X e2 ''dragDelay'' = (e2, [])
               \<and> s' = compute X (s3\<lparr>u_active := True, u_preventScroll := True,
                                     u_delayed := False\<rparr>) (Some (Pointer mv))
               \<and> u_active s' \<and> \<not> u_delayed s'))"
proof -
  have e1: "e1 = setupDelayTrigger
      (e\<lparr>state := (start X (state e) (Pointer down))\<lparr>u_pointerId := Some (pe_pointerId down),
           u_pointerActive := True, values' := pe_values down,
           initial := pe_values down\<rparr>\<rparr>) down"
    and dn: "pointerDown X cfg e down = (e1, [])"
    using assms(1,2,3,5) by (simp_all add: pointerDown_def Let_def)
  have st: "u_delayed (state e1)" "u_pointerActive (state e1)"
    "timeoutStore e1 ''dragDelay'' = Some down"
    using e1 by (simp_all add: setupDelayTrigger_def)
  have fire: "fire_timeout X e1 ''dragDelay''
      = startPointerDrag X
          (e1\<lparr>timeoutStore := (timeoutStore e1)(''dragDelay'' := None)\<rparr>) down"
    using st(3) by (simp add: fire_timeout_def)
  have fired: "\<exists>s'. snd (fire_timeout X e1 ''dragDelay'') = [s']
              \<and> s' = compute X ((state e1)\<lparr>u_active := True, u_preventScroll := True,
                                   u_delayed := False\<rparr>) (Some (Pointer down))
              \<and> u_active s' \<and> \<not> u_delayed s'"
    using fire assms(4)
    by (simp add: startPointerDrag_def emit_call_def Let_def compute_frame_fields)
  have moved: "\<exists>e2 s'. pointerMove X cfg e1 mv = (emit X e2, [s'])
               \<and> state e2 = s'
               \<and> timeoutStore e2 ''dragDelay'' = None
               \<and> fire_timeout X e2 ''dragDelay'' = (e2, [])
               \<and> s' = compute X (s3\<lparr>u_active := True, u_preventScroll := True,
                                     u_delayed := False\<rparr>) (Some (Pointer mv))
               \<and> u_active s' \<and> \<not> u_delayed s'"
    if acc: "move_accepted (state e1) mv"
  proof -
    let ?s' = "compute X (s3\<lparr>u_active := True, u_preventScroll := True, u_delayed := False\<rparr>)
                 (Some (Pointer mv))"
    let ?e2 = "e1\<lparr>timeoutStore := (timeoutStore e1)(''dragDelay'' := None), state := ?s'\<rparr>"
    have "u_delayed s3"
      using assms(4,6) st(1) by (simp add: compute_frame_fields move_accumulate_def Let_def)
    then have "pointerMove X cfg e1 mv
      = startPointerDrag X
          (e1\<lparr>state := s3, timeoutStore := (timeoutStore e1)(''dragDelay'' := None)\<rparr>) mv"
      using pointerMove_accepted [OF acc assms(6), of cfg] by simp
    then have "pointerMove X cfg e1 mv = (emit X ?e2, [?s'])"
      by (simp add: startPointerDrag_def emit_call_def Let_def)
    moreover have "state ?e2 = ?s'" and "timeoutStore ?e2 ''dragDelay'' = None"
      and "fire_timeout X ?e2 ''dragDelay'' = (?e2, [])"
      by (simp_all add: fire_timeout_def)
    moreover have "u_active ?s'" and "\<not> u_delayed ?s'"
      using assms(4) by (simp_all add: compute_frame_fields)
    ultimately show ?thesis by blast
  qed
  show ?thesis using dn st fire fired moved by blast
qed

theorem delay_pending_witness:
  "\<not> u_pointerActive (state engine0)
   \<and> \<not> preventScroll config_delay \<and> 0 < delay config_delay
   \<and> compute_frame X0
   \<and> move_accepted (state delay_pending_engine) (pointer_at ''pointermove'' 1 50 (6, 0))
   \<and> snd (pointerDown X0 config_delay engine0 (pointer_at ''pointerdown'' 1 0 (0, 0))) = []
   \<and> map flags (snd (fire_timeout X0 delay_pending_engine ''dragDelay''))
       = [(True, True, False)]
   \<and> map timeStamp (snd (fire_timeout X0 delay_pending_engine ''dragDelay'')) = [0]
   \<and> map flags (snd (pointerMove X0 config_delay delay_pending_engine
        (pointer_at ''pointermove'' 1 50 (6, 0)))) = [(True, True, False)]
   \<and> map timeStamp (snd (pointerMove X0 config_delay delay_pending_engine
        (pointer_at ''pointermove'' 1 50 (6, 0)))) = [50]
   \<and> timeoutStore (fst (pointerMove X0 config_delay delay_pending_engine
        (pointer_at ''pointermove'' 1 50 (6, 0)))) ''dragDelay'' = None"
  using delay_pending [where e = engine0 and cfg = config_delay and X = X0
      and down = "pointer_at ''pointerdown'' 1 0 (0, 0)"
      and ?e1.0 = delay_pending_engine
      and mv = "pointer_at ''pointermove'' 1 50 (6, 0)"
      and ?s3.0 = "compute X0 (move_accumulate (state delay_pending_engine)
                  (pointer_at ''pointermove'' 1 50 (6, 0)))
                  (Some (Pointer (pointer_at ''pointermove'' 1 50 (6, 0))))"]
    X0_compute_frame
  by (simp add: delay_pending_engine_def handler_defs reference_defs Let_def)

subsection \<open>Keyboard input\<close>

lemma KEYS_DELTA_MAP_arrow:
  "arrow_displacement ev = Some d \<Longrightarrow>
     \<exists>deltaFn. KEYS_DELTA_MAP (ke_key ev) = Some deltaFn \<and> deltaFn (key_factor ev) = d"
  by (auto simp add: arrow_displacement_def arrow_direction_def modifier_scale_def
      KEYS_DELTA_MAP_def DISPLACEMENT_def key_factor_def split: if_splits)

text \<open>
  Claim C7 fails on the first arrow key press of a gesture. \<^verbatim>\<open>keyDown\<close> assigns the
  displacement to \<^verbatim>\<open>_delta\<close> and only then calls \<^verbatim>\<open>start\<close> (\<^verbatim>\<open>pointerDown\<close>, the sibling
  path, calls \<^verbatim>\<open>start\<close> before it assigns anything). For a gesture that is not active
  yet \<^verbatim>\<open>start\<close> resets the state, so the \<^verbatim>\<open>_delta\<close> that is added to \<^verbatim>\<open>_movement\<close>
  afterwards is zero. On the idle engine the right arrow, whose displacement is
  \<open>(10, 0)\<close>, emits delta \<open>(0, 0)\<close> and movement \<open>(0, 0)\<close>; pressed twice, it moves by
  10 where the claim promises 20.
\<close>

theorem first_key_press_adds_nothing:
  "flags (state engine0) = (False, False, False)
   \<and> arrow_displacement (key_at ''keydown'' ''ArrowRight'' 30 False False) = Some (10, 0)
   \<and> map u_delta (snd (keyDown X0 engine0
        (key_at ''keydown'' ''ArrowRight'' 30 False False))) = [(0, 0)]
   \<and> map u_movement (snd (keyDown X0 engine0
        (key_at ''keydown'' ''ArrowRight'' 30 False False))) = [(0, 0)]
   \<and> map u_movement (snd (run X0 config0 engine0
        [KeyDown (key_at ''keydown'' ''ArrowRight'' 30 False False),
         KeyDown (key_at ''keydown'' ''ArrowRight'' 60 False False)]))
       = [(0, 0), (10, 0)]"
  by (simp add: handler_defs reference_defs Let_def arrow_displacement_def
      arrow_direction_def modifier_scale_def)

text \<open>
  What the claim says holds wherever \<^verbatim>\<open>start\<close> leaves the \<^verbatim>\<open>_delta\<close> just assigned in
  place, as it does for a gesture that is already active. Let \<open>d\<close> be the displacement
  the specification describes (\<open>arrow_displacement\<close>: magnitude 10, signed by the key,
  times 10 with shift, times 0.1 with alt, shift winning). Then the state emitted has
  delta \<open>d\<close> and a movement that is the movement \<^verbatim>\<open>start\<close> left plus \<open>d\<close>. The right arrow
  gives \<open>(100, 0)\<close> with shift (also when alt is held too) and \<open>(1, 0)\<close> with alt alone.
\<close>

lemma keyDown_displacement:
  assumes "arrow_displacement ev = Some d"
    and "compute_frame X"
    and "u_delta (start X ((state e)\<lparr>u_delta := d\<rparr>) (Keyboard ev)) = d"
  shows "\<exists>s'. keyDown X e ev = (emit X (e\<lparr>state := s'\<rparr>), [s'])
           \<and> u_delta s' = d
           \<and> u_movement s' =
               V_addTo (u_movement (start X ((state e)\<lparr>u_delta := d\<rparr>) (Keyboard ev))) d
           \<and> u_keyboardActive s'
           \<and> (ke_key ev = ''ArrowRight'' \<and> ke_shiftKey ev \<longrightarrow> d = (100, 0))
           \<and> (ke_key ev = ''ArrowRight'' \<and> \<not> ke_shiftKey ev \<and> ke_altKey ev \<longrightarrow> d = (1, 0))"
proof -
  from assms(1) obtain deltaFn where
    k: "KEYS_DELTA_MAP (ke_key ev) = Some deltaFn" and d: "deltaFn (key_factor ev) = d"
    using KEYS_DELTA_MAP_arrow by blast
  have ex: "(ke_key ev = ''ArrowRight'' \<and> ke_shiftKey ev \<longrightarrow> d = (100, 0))
      \<and> (ke_key ev = ''ArrowRight'' \<and> \<not> ke_shiftKey ev \<and> ke_altKey ev \<longrightarrow> d = (1, 0))"
    using assms(1)
    by (auto simp add: arrow_displacement_def arrow_direction_def modifier_scale_def)
  show ?thesis
    using k d ex assms(2,3)
    by (simp add: keyDown_def emit_call_def Let_def compute_frame_fields)
qed

lemma keyDown_displacement_example:
  "arrow_displacement (key_at ''keydown'' ''ArrowRight'' 30 True True) = Some (100, 0)
   \<and> flags (state (dragged (4, 0) 10)) = (True, True, False)
   \<and> map u_delta (snd (keyDown X0 (dragged (4, 0) 10)
        (key_at ''keydown'' ''ArrowRight'' 30 True True))) = [(100, 0)]
   \<and> map u_movement (snd (keyDown X0 (dragged (4, 0) 10)
        (key_at ''keydown'' ''ArrowRight'' 30 True True))) = [(104, 0)]"
  using keyDown_displacement [of "key_at ''keydown'' ''ArrowRight'' 30 True True" "(100, 0)" X0
      "dragged (4, 0) 10"]
    X0_compute_frame
  by (simp add: dragged_state handler_defs reference_defs Let_def arrow_displacement_def
      arrow_direction_def modifier_scale_def)

text \<open>
  Claim C10. A key-up of one of the four arrow keys always lowers the keyboard flag,
  recomputes \<open>active\<close> as the disjunction of the source flags, runs a kinematics pass on
  the event and emits the result, whatever the state was: nothing is asked of the
  flags beforehand, so this also happens when the keyboard flag was already down and no
  gesture is active.
\<close>

theorem keyUp_unconditional:
  assumes "ke_key ev \<in> {''ArrowRight'', ''ArrowLeft'', ''ArrowUp'', ''ArrowDown''}"
    and "compute_frame X"
  shows "\<exists>s'. keyUp X e ev = (emit X (e\<lparr>state := s'\<rparr>), [s'])
           \<and> s' = compute X ((state e)\<lparr>u_keyboardActive := False,
                      u_active := u_pointerActive (state e)\<rparr>) (Some (Keyboard ev))
           \<and> \<not> u_keyboardActive s'
           \<and> (u_active s' \<longleftrightarrow> u_pointerActive s' \<or> u_keyboardActive s')"
  using assms
  by (auto simp add: keyUp_def KEYS_DELTA_MAP_def emit_call_def setActive_def Let_def
      compute_frame_fields)

theorem keyUp_unconditional_witness:
  "''ArrowLeft'' \<in> {''ArrowRight'', ''ArrowLeft'', ''ArrowUp'', ''ArrowDown''}
   \<and> compute_frame X0
   \<and> flags (state engine0) = (False, False, False)
   \<and> map flags (snd (keyUp X0 engine0 (key_at ''keyup'' ''ArrowLeft'' 5 False False)))
       = [(False, False, False)]
   \<and> map timeStamp (snd (keyUp X0 engine0 (key_at ''keyup'' ''ArrowLeft'' 5 False False)))
       = [5]"
  using keyUp_unconditional [of "key_at ''keyup'' ''ArrowLeft'' 5 False False" X0 engine0]
    X0_compute_frame
  by (simp add: handler_defs reference_defs Let_def)

subsection \<open>The movement accumulated by pointer-moves\<close>

lemma accepted_move_effect:
  assumes "compute_frame X" and "emit_frame X" and "super_clean_frame X"
    and "move_accepted (state e) ev"
  shows "u_movement (state (fst (pointerMove X cfg e ev)))
           = V_addTo (u_movement (state e))
               (if pe_locked ev then pe_movement ev
                else V_sub (pe_values ev) (values' (state e)))"
    and "values' (state (fst (pointerMove X cfg e ev)))
           = (if pe_locked ev then values' (state e) else pe_values ev)"
  using assms(1,2,3) pointerMove_accepted [OF assms(4) refl, of X cfg]
  by (simp_all add: startPointerDrag_def emit_call_def clean_def compute_frame_fields
      emit_frame_fields super_clean_frame_def move_accumulate_def Let_def
      split: option.splits)

text \<open>An event that bears the captured pointer id is never rejected for its id.\<close>

lemma captured_id_not_rejected:
  "u_pointerId s = Some (pe_pointerId ev) \<Longrightarrow> \<not> id_mismatch s ev"
  by (simp add: id_mismatch_def)

text \<open>
  Claim C8. Run any list of pointer-move events, each of which passes the guards in the
  state it meets: the pointer is active, the event does not repeat the previous sample,
  and its id is not rejected (an event bearing the captured id never is). The
  raw movement the engine then holds is the running sum, taken in arrival order from
  the movement it started with, of the per-event deltas: the relative movement the
  platform reports for an event under pointer lock, and for any other event the
  difference between its absolute position and the last absolute position recorded.
\<close>

theorem movement_running_sum:
  assumes "compute_frame X" and "emit_frame X" and "super_clean_frame X"
    and "all_accepted X cfg e evs"
  shows "u_movement (state (moves X cfg e evs))
           = foldl V_addTo (u_movement (state e)) (event_deltas (values' (state e)) evs)"
  using assms(4)
proof (induction evs arbitrary: e)
  case Nil
  then show ?case by simp
next
  case (Cons ev evs)
  from Cons.prems have acc: "move_accepted (state e) ev"
    and rest: "all_accepted X cfg (fst (pointerMove X cfg e ev)) evs"
    by simp_all
  note eff = accepted_move_effect [OF assms(1,2,3) acc, of cfg]
  show ?case
    using Cons.IH [OF rest] eff by simp
qed

theorem movement_running_sum_witness:
  "compute_frame X0 \<and> emit_frame X0 \<and> super_clean_frame X0
   \<and> all_accepted X0 config0 (dragged (4, 0) 10)
        [pointer_at ''pointermove'' 1 20 (7, 1),
         (pointer_at ''pointermove'' 1 30 (0, 0))\<lparr>pe_movement := (2, - 3), pe_locked := True\<rparr>,
         pointer_at ''pointermove'' 1 40 (5, 5)]
   \<and> u_movement (state (dragged (4, 0) 10)) = (4, 0)
   \<and> event_deltas (values' (state (dragged (4, 0) 10)))
        [pointer_at ''pointermove'' 1 20 (7, 1),
         (pointer_at ''pointermove'' 1 30 (0, 0))\<lparr>pe_movement := (2, - 3), pe_locked := True\<rparr>,
         pointer_at ''pointermove'' 1 40 (5, 5)]
       = [(3, 1), (2, - 3), (- 2, 4)]
   \<and> u_movement (state (moves X0 config0 (dragged (4, 0) 10)
        [pointer_at ''pointermove'' 1 20 (7, 1),
         (pointer_at ''pointermove'' 1 30 (0, 0))\<lparr>pe_movement := (2, - 3), pe_locked := True\<rparr>,
         pointer_at ''pointermove'' 1 40 (5, 5)])) = (7, 2)"
  using movement_running_sum [of X0 config0 "dragged (4, 0) 10"
        "[pointer_at ''pointermove'' 1 20 (7, 1),
         (pointer_at ''pointermove'' 1 30 (0, 0))\<lparr>pe_movement := (2, - 3), pe_locked := True\<rparr>,
         pointer_at ''pointermove'' 1 40 (5, 5)]"]
    X0_compute_frame X0_emit_frame X0_super_clean_frame
  by (simp add: dragged_state handler_defs reference_defs Let_def)

subsection \<open>Inputs that are dropped\<close>

text \<open>
  A pointer event whose id differs from a captured id other than 0, a pointer-move with
  the type and time stamp of the previous sample, and a key that is neither one of the
  four arrow keys nor the name of a property inherited from \<^verbatim>\<open>Object.prototype\<close> leave
  the engine as it is and emit nothing.
\<close>

lemma foreign_pointer_dropped:
  assumes "u_pointerId (state e) = Some i" and "i \<noteq> 0" and "pe_pointerId ev \<noteq> i"
  shows "pointerMove X cfg e ev = (e, [])" and "pointerUp X cfg e ev = (e, [])"
  using assms by (simp_all add: pointerMove_def pointerUp_def id_mismatch_def Let_def)

lemma duplicate_move_dropped:
  assumes "type' (state e) = Some (pe_type ev)" and "pe_timeStamp ev = timeStamp (state e)"
  shows "pointerMove X cfg e ev = (e, [])"
  using assms by (simp add: pointerMove_def Let_def)

lemma unrecognized_key_dropped:
  assumes "ke_key ev \<notin> {''ArrowRight'', ''ArrowLeft'', ''ArrowUp'', ''ArrowDown''}"
    and "ke_key ev \<notin> set inherited_names"
  shows "keyDown X e ev = (e, [])" and "keyUp X e ev = (e, [])"
  using assms by (simp_all add: keyDown_def keyUp_def KEYS_DELTA_MAP_def)

text \<open>
  Claim C9 holds for these inputs but not for a captured pointer id of 0: the guard
  \<^verbatim>\<open>state._pointerId && id !== state._pointerId\<close> reads the captured id 0 as ``no id''. After
  a pointer-down with id 0, a pointer-move with id 7 is taken as part of the gesture (its
  delta is added to the movement and emitted), and a pointer-up with id 7 ends the
  gesture.
\<close>

theorem foreign_move_with_captured_id_zero:
  "u_pointerId (state captured_zero) = Some 0
   \<and> pe_pointerId (pointer_at ''pointermove'' 7 10 (5, 0)) = 7
   \<and> u_movement (state captured_zero) = (0, 0)
   \<and> u_movement (state (fst (pointerMove X0 config0 captured_zero
        (pointer_at ''pointermove'' 7 10 (5, 0))))) = (5, 0)
   \<and> map u_delta (snd (pointerMove X0 config0 captured_zero
        (pointer_at ''pointermove'' 7 10 (5, 0)))) = [(5, 0)]
   \<and> flags (state captured_zero) = (True, True, False)
   \<and> flags (state (fst (pointerUp X0 config0 captured_zero
        (pointer_at ''pointerup'' 7 10 (5, 0))))) = (False, False, False)"
  by (simp add: captured_zero_def handler_defs reference_defs Let_def)

end
